theory Spec2Isabelle
  imports Complex_Main "HOL-Library.Word"
begin

section \<open>The vocabulary of the program\<close>

text \<open>
  The program of \<^verbatim>\<open>main (explanations).cpp\<close> is a straight sequence of calls into GLFW,
  GLAD and OpenGL, followed by a render loop and a teardown. What it does is the sequence
  of calls it issues and the lines it writes to standard output, and what it returns.
  The model therefore runs \<open>main\<close> against a \<open>world\<close> (every answer the libraries
  give to the program) and yields the list of calls issued, in order, with the exit code.

  The symbolic constants of the GLFW and OpenGL headers are kept as names: their numeric
  values are not in the repository and nothing below depends on them.
\<close>

type_synonym GLuint = "32 word"

datatype glfw_hint =
    GLFW_CONTEXT_VERSION_MAJOR
  | GLFW_CONTEXT_VERSION_MINOR
  | GLFW_OPENGL_PROFILE

datatype hint_value =
    Value int
  | GLFW_OPENGL_CORE_PROFILE

datatype glfw_key =
    GLFW_KEY_ESCAPE
  | GLFW_KEY_other nat

datatype key_action =
    GLFW_RELEASE
  | GLFW_PRESS

datatype GLenum =
    GL_VERTEX_SHADER
  | GL_FRAGMENT_SHADER
  | GL_COMPILE_STATUS
  | GL_LINK_STATUS
  | GL_ARRAY_BUFFER
  | GL_ELEMENT_ARRAY_BUFFER
  | GL_STATIC_DRAW
  | GL_FLOAT
  | GL_FRONT_AND_BACK
  | GL_LINE
  | GL_COLOR_BUFFER_BIT
  | GL_TRIANGLES
  | GL_UNSIGNED_INT

text \<open>
  The payload of a buffer upload: the \<^verbatim>\<open>float\<close> array or the \<^verbatim>\<open>unsigned int\<close> array.
  A \<^verbatim>\<open>float\<close> is denoted by the decimal literal of the source; the rounding to binary32
  is not modelled (the literals of the vertex array, 0.5, -0.5 and 0.0, are exact).
\<close>

datatype buffer_data =
    Floats "real list"
  | UInts "GLuint list"

text \<open>
  One constructor for each library call the program issues and one, \<open>Cout\<close>, for a
  write to standard output. The window argument is left out: there is one window.
  \<open>GlDrawArrays\<close> is the call commented out at line 199; the program never issues it.
\<close>

datatype call =
    GlfwInit
  | GlfwWindowHint glfw_hint hint_value
  | GlfwCreateWindow int int string
  | Cout string
  | GlfwTerminate
  | GlfwMakeContextCurrent
  | GlfwSetFramebufferSizeCallback
  | GladLoadGLLoader
  | GlCreateShader GLenum
  | GlShaderSource GLuint int string
  | GlCompileShader GLuint
  | GlGetShaderiv GLuint GLenum
  | GlGetShaderInfoLog GLuint int
  | GlCreateProgram
  | GlAttachShader GLuint GLuint
  | GlLinkProgram GLuint
  | GlGetProgramiv GLuint GLenum
  | GlGetProgramInfoLog GLuint int
  | GlDeleteShader GLuint
  | GlGenVertexArrays int
  | GlGenBuffers int
  | GlBindVertexArray GLuint
  | GlBindBuffer GLenum GLuint
  | GlBufferData GLenum nat buffer_data GLenum
  | GlVertexAttribPointer nat int GLenum bool nat nat
  | GlEnableVertexAttribArray nat
  | GlPolygonMode GLenum GLenum
  | GlfwWindowShouldClose
  | GlfwGetKey glfw_key
  | GlfwSetWindowShouldClose bool
  | GlClearColor real real real real
  | GlClear GLenum
  | GlUseProgram GLuint
  | GlDrawArrays GLenum int int
  | GlDrawElements GLenum int GLenum nat
  | GlfwSwapBuffers
  | GlfwPollEvents
  | GlViewport int int int int
  | GlDeleteVertexArrays int GLuint
  | GlDeleteBuffers int GLuint

section \<open>The window and the events GLFW delivers\<close>

text \<open>
  Of a GLFW window the program reads two things: the last reported state of a key
  (\<^verbatim>\<open>glfwGetKey\<close>) and the close flag (\<^verbatim>\<open>glfwWindowShouldClose\<close>); it writes
  the close flag (\<^verbatim>\<open>glfwSetWindowShouldClose\<close>).
\<close>

record window =
  keys :: "glfw_key \<Rightarrow> key_action"
  should_close :: bool

definition glfwGetKey :: "window \<Rightarrow> glfw_key \<Rightarrow> key_action" where
  "glfwGetKey win k = keys win k"

definition glfwWindowShouldClose :: "window \<Rightarrow> bool" where
  "glfwWindowShouldClose win = should_close win"

definition glfwSetWindowShouldClose :: "window \<Rightarrow> bool \<Rightarrow> window" where
  "glfwSetWindowShouldClose win v = win\<lparr>should_close := v\<rparr>"

text \<open>
  What \<^verbatim>\<open>glfwPollEvents\<close> finds in the event queue: key transitions, a request to
  close the window, and changes of the framebuffer size, for which GLFW calls the
  callback registered at line 62.
\<close>

datatype input_event =
    Key glfw_key key_action
  | WindowClose
  | FramebufferSize int int

text \<open>Lines 234 to 237.\<close>

definition framebuffer_size_callback :: "int \<Rightarrow> int \<Rightarrow> call list" where
  "framebuffer_size_callback width height = [GlViewport 0 0 width height]"

fun glfwPollEvents :: "input_event list \<Rightarrow> window \<Rightarrow> call list \<times> window" where
  "glfwPollEvents [] win = ([], win)"
| "glfwPollEvents (Key k a # es) win =
     glfwPollEvents es (win\<lparr>keys := (keys win)(k := a)\<rparr>)"
| "glfwPollEvents (WindowClose # es) win =
     glfwPollEvents es (win\<lparr>should_close := True\<rparr>)"
| "glfwPollEvents (FramebufferSize width height # es) win =
     (let (cs, win') = glfwPollEvents es win
      in (framebuffer_size_callback width height @ cs, win'))"

section \<open>The world\<close>

text \<open>
  Everything the libraries answer. \<open>glfwCreateWindow_result\<close> is \<open>None\<close> for the
  \<^verbatim>\<open>NULL\<close> pointer. The two status fields hold what \<^verbatim>\<open>glGetShaderiv\<close> and
  \<^verbatim>\<open>glGetProgramiv\<close> store into \<^verbatim>\<open>success\<close>, the two log fields the text the
  info-log calls leave in \<^verbatim>\<open>infoLog\<close>. \<open>fragment_compile_status\<close> is the compile
  status the driver holds for the fragment shader. \<open>frames\<close> gives, for each
  iteration of the render loop, the event queue its \<^verbatim>\<open>glfwPollEvents\<close> processes;
  a run that has used all of them with the window still open has not returned.
\<close>

record world =
  glfwCreateWindow_result :: "window option"
  gladLoadGLLoader_result :: int
  vertexShader_name :: GLuint
  vertex_compile_status :: int
  vertex_infoLog :: string
  fragmentShader_name :: GLuint
  fragment_compile_status :: int
  shaderProgram_name :: GLuint
  link_status :: int
  program_infoLog :: string
  VAO_name :: GLuint
  VBO_name :: GLuint
  EBO_name :: GLuint
  frames :: "input_event list list"

section \<open>The program\<close>

text \<open>Lines 9 and 10.\<close>

definition SCR_WIDTH :: "32 word" where
  "SCR_WIDTH = 800"

definition SCR_HEIGHT :: "32 word" where
  "SCR_HEIGHT = 600"

definition newline :: string where
  "newline = [CHR 0x0A]"

text \<open>
  Lines 14 to 28. Each literal ends in an explicit \<^verbatim>\<open>\0\<close>; \<^verbatim>\<open>glShaderSource\<close> is given
  no length and reads up to the first NUL, so the strings stop before it.
\<close>

definition vertexShaderSource :: string where
  "vertexShaderSource =
     ''#version 330 core'' @ newline @
     ''layout (location = 0) in vec3 aPos;'' @ newline @
     ''void main()'' @ newline @
     ''{'' @ newline @
     ''   gl_Position = vec4(aPos.x, aPos.y, aPos.z, 1.0);'' @ newline @
     ''}''"

definition fragmentShaderSource :: string where
  "fragmentShaderSource =
     ''#version 330 core'' @ newline @
     ''out vec4 FragColor;'' @ newline @
     ''void main()'' @ newline @
     ''{'' @ newline @
     ''   FragColor = vec4(1.0f, 0.5f, 0.2f, 1.0f);'' @ newline @
     ''}'' @ newline"

text \<open>Lines 74 to 84.\<close>

definition vertices :: "real list" where
  "vertices =
     [0.5, 0.5, 0.0,
      0.5, - 0.5, 0.0,
      - 0.5, - 0.5, 0.0,
      - 0.5, 0.5, 0.0]"

definition indices :: "GLuint list" where
  "indices =
     [0, 2, 3,
      0, 1, 2]"

definition sizeof_float :: nat where
  "sizeof_float = 4"

definition sizeof_unsigned_int :: nat where
  "sizeof_unsigned_int = 4"

text \<open>Lines 222 to 226.\<close>

definition processInput :: "window \<Rightarrow> call list \<times> window" where
  "processInput win =
     (if glfwGetKey win GLFW_KEY_ESCAPE = GLFW_PRESS
      then ([GlfwGetKey GLFW_KEY_ESCAPE, GlfwSetWindowShouldClose True],
            glfwSetWindowShouldClose win True)
      else ([GlfwGetKey GLFW_KEY_ESCAPE], win))"

text \<open>The body of the render loop, lines 189 to 206, on one event queue.\<close>

definition loop_body :: "GLuint \<Rightarrow> GLuint \<Rightarrow> input_event list \<Rightarrow> window \<Rightarrow> call list \<times> window" where
  "loop_body shaderProgram VAO queue win =
     (let (input_calls, win1) = processInput win;
          (callback_calls, win2) = glfwPollEvents queue win1
      in (input_calls @
          [GlClearColor 0.2 0.3 0.3 1.0,
           GlClear GL_COLOR_BUFFER_BIT,
           GlUseProgram shaderProgram,
           GlBindVertexArray VAO,
           GlDrawElements GL_TRIANGLES 6 GL_UNSIGNED_INT 0,
           GlfwSwapBuffers,
           GlfwPollEvents] @ callback_calls,
          win2))"

text \<open>
  The render loop, lines 185 to 207. The second component tells whether the loop was
  left; it is \<open>False\<close> when the event queues ran out with the window still open.
\<close>

fun render_loop :: "GLuint \<Rightarrow> GLuint \<Rightarrow> input_event list list \<Rightarrow> window \<Rightarrow> call list \<times> bool" where
  "render_loop shaderProgram VAO [] win =
     ([GlfwWindowShouldClose], glfwWindowShouldClose win)"
| "render_loop shaderProgram VAO (queue # queues) win =
     (if glfwWindowShouldClose win then ([GlfwWindowShouldClose], True)
      else
        (let (body_calls, win') = loop_body shaderProgram VAO queue win;
             (later_calls, left) = render_loop shaderProgram VAO queues win'
         in (GlfwWindowShouldClose # body_calls @ later_calls, left)))"

text \<open>
  \<open>main\<close>, lines 30 to 217. \<open>t\<close> is the sequence of calls issued so far. The result
  is that sequence and the value returned, \<open>None\<close> while the render loop is running.
\<close>

definition main :: "world \<Rightarrow> call list \<times> int option" where
  "main w =
     (let t = [GlfwInit,
               GlfwWindowHint GLFW_CONTEXT_VERSION_MAJOR (Value 3),
               GlfwWindowHint GLFW_CONTEXT_VERSION_MINOR (Value 3),
               GlfwWindowHint GLFW_OPENGL_PROFILE GLFW_OPENGL_CORE_PROFILE,
               GlfwCreateWindow (sint SCR_WIDTH) (sint SCR_HEIGHT) ''OpenGL - Creating a window'']
      in case glfwCreateWindow_result w of
           None \<Rightarrow>
             (t @ [Cout (''Failed to create GLFW Window'' @ newline), GlfwTerminate], Some (- 1))
         | Some win \<Rightarrow>
             (let t = t @ [GlfwMakeContextCurrent, GlfwSetFramebufferSizeCallback, GladLoadGLLoader]
              in if gladLoadGLLoader_result w = 0
                 then (t @ [Cout (''Failed to initialize GLAD'' @ newline)], Some (- 1))
                 else
                   (let vertexShader = vertexShader_name w;
                        t = t @ [GlCreateShader GL_VERTEX_SHADER,
                                 GlShaderSource vertexShader 1 vertexShaderSource,
                                 GlCompileShader vertexShader,
                                 GlGetShaderiv vertexShader GL_COMPILE_STATUS];
                        success = vertex_compile_status w;
                        t = t @ (if success = 0
                                 then [GlGetShaderInfoLog vertexShader 512,
                                       Cout (''ERROR::SHADER::VERTEX::COMPILATION_FAILED'' @ newline @
                                             vertex_infoLog w @ newline)]
                                 else []);
                        fragmentShader = fragmentShader_name w;
                        t = t @ [GlCreateShader GL_FRAGMENT_SHADER,
                                 GlShaderSource fragmentShader 1 fragmentShaderSource,
                                 GlCompileShader fragmentShader];
                        shaderProgram = shaderProgram_name w;
                        t = t @ [GlCreateProgram,
                                 GlAttachShader shaderProgram vertexShader,
                                 GlAttachShader shaderProgram fragmentShader,
                                 GlLinkProgram shaderProgram,
                                 GlGetProgramiv shaderProgram GL_LINK_STATUS];
                        success = link_status w;
                        t = t @ (if success = 0
                                 then [GlGetProgramInfoLog shaderProgram 512,
                                       Cout (''ERROR::SHADER::PROGRAM::LINKING_FAILED'' @ newline @
                                             program_infoLog w @ newline)]
                                 else []);
                        t = t @ [GlDeleteShader vertexShader,
                                 GlDeleteShader fragmentShader];
                        VAO = VAO_name w;
                        VBO = VBO_name w;
                        EBO = EBO_name w;
                        t = t @ [GlGenVertexArrays 1,
                                 GlGenBuffers 1,
                                 GlGenBuffers 1,
                                 GlBindVertexArray VAO,
                                 GlBindBuffer GL_ARRAY_BUFFER VBO,
                                 GlBufferData GL_ARRAY_BUFFER (length vertices * sizeof_float)
                                   (Floats vertices) GL_STATIC_DRAW,
                                 GlBindBuffer GL_ELEMENT_ARRAY_BUFFER EBO,
                                 GlBufferData GL_ELEMENT_ARRAY_BUFFER (length indices * sizeof_unsigned_int)
                                   (UInts indices) GL_STATIC_DRAW,
                                 GlVertexAttribPointer 0 3 GL_FLOAT False (3 * sizeof_float) 0,
                                 GlEnableVertexAttribArray 0,
                                 GlPolygonMode GL_FRONT_AND_BACK GL_LINE];
                        (loop_calls, left) = render_loop shaderProgram VAO (frames w) win
                    in if left
                       then (t @ loop_calls @
                             [GlDeleteVertexArrays 1 VAO,
                              GlDeleteBuffers 1 VBO,
                              GlDeleteBuffers 1 EBO,
                              GlfwTerminate], Some 0)
                       else (t @ loop_calls, None))))"

section \<open>Observations on the sequence of calls\<close>

text \<open>
  Predicates that pick calls of one kind out of a run. The buffer contents are written
  by \<^verbatim>\<open>glBufferData\<close> alone; a draw call is \<^verbatim>\<open>glDrawArrays\<close> or
  \<^verbatim>\<open>glDrawElements\<close>; an error report is a read of an info log or a write to
  standard output.
\<close>

definition is_glBufferData :: "call \<Rightarrow> bool" where
  "is_glBufferData c = (case c of GlBufferData target n d usage \<Rightarrow> True | _ \<Rightarrow> False)"

definition is_draw_call :: "call \<Rightarrow> bool" where
  "is_draw_call c =
     (case c of GlDrawArrays mode first n \<Rightarrow> True
      | GlDrawElements mode n ty offset \<Rightarrow> True
      | _ \<Rightarrow> False)"

definition is_glPolygonMode :: "call \<Rightarrow> bool" where
  "is_glPolygonMode c = (case c of GlPolygonMode face mode \<Rightarrow> True | _ \<Rightarrow> False)"

definition is_glfwWindowHint :: "call \<Rightarrow> bool" where
  "is_glfwWindowHint c = (case c of GlfwWindowHint hint v \<Rightarrow> True | _ \<Rightarrow> False)"

definition is_glfwCreateWindow :: "call \<Rightarrow> bool" where
  "is_glfwCreateWindow c = (case c of GlfwCreateWindow width height title \<Rightarrow> True | _ \<Rightarrow> False)"

definition is_compile_or_link :: "call \<Rightarrow> bool" where
  "is_compile_or_link c =
     (case c of GlCompileShader shader \<Rightarrow> True
      | GlLinkProgram program \<Rightarrow> True
      | _ \<Rightarrow> False)"

definition is_status_query :: "call \<Rightarrow> bool" where
  "is_status_query c =
     (case c of GlGetShaderiv shader pname \<Rightarrow> True
      | GlGetProgramiv program pname \<Rightarrow> True
      | _ \<Rightarrow> False)"

definition is_error_report :: "call \<Rightarrow> bool" where
  "is_error_report c =
     (case c of Cout s \<Rightarrow> True
      | GlGetShaderInfoLog shader n \<Rightarrow> True
      | GlGetProgramInfoLog program n \<Rightarrow> True
      | _ \<Rightarrow> False)"

text \<open>
  The calls the render loop can issue, for the program object and the vertex array it is
  given: the loop test, the calls of \<open>processInput\<close>, the calls of the body, and the
  \<^verbatim>\<open>glViewport\<close> of the resize callback.
\<close>

definition loop_call :: "GLuint \<Rightarrow> GLuint \<Rightarrow> call \<Rightarrow> bool" where
  "loop_call shaderProgram VAO c =
     (case c of
        GlViewport x y width height \<Rightarrow> x = 0 \<and> y = 0
      | _ \<Rightarrow> c \<in> set [GlfwWindowShouldClose,
                     GlfwGetKey GLFW_KEY_ESCAPE,
                     GlfwSetWindowShouldClose True,
                     GlClearColor 0.2 0.3 0.3 1.0,
                     GlClear GL_COLOR_BUFFER_BIT,
                     GlUseProgram shaderProgram,
                     GlBindVertexArray VAO,
                     GlDrawElements GL_TRIANGLES 6 GL_UNSIGNED_INT 0,
                     GlfwSwapBuffers,
                     GlfwPollEvents])"

text \<open>
  The OpenGL specification lets \<^verbatim>\<open>glLinkProgram\<close> succeed only when every attached
  shader was compiled successfully. A world obeys it when its link status is zero
  whenever one of its compile statuses is.
\<close>

definition gl_link_rule :: "world \<Rightarrow> bool" where
  "gl_link_rule w =
     (link_status w = 0 \<or> (vertex_compile_status w \<noteq> 0 \<and> fragment_compile_status w \<noteq> 0))"

section \<open>The phases the specification names\<close>

text \<open>
  The specification describes the program as initialization, then compilation and
  linking, then buffer upload, then the loop, then cleanup. The following lists are the
  calls of lines 37 to 66, of lines 91 to 147, of lines 153 to 180 and of lines 209 to
  215, written out from the specification's reading and compared with \<open>main\<close> below.
\<close>

definition initialization_calls :: "call list" where
  "initialization_calls =
     [GlfwInit,
      GlfwWindowHint GLFW_CONTEXT_VERSION_MAJOR (Value 3),
      GlfwWindowHint GLFW_CONTEXT_VERSION_MINOR (Value 3),
      GlfwWindowHint GLFW_OPENGL_PROFILE GLFW_OPENGL_CORE_PROFILE,
      GlfwCreateWindow 800 600 ''OpenGL - Creating a window'',
      GlfwMakeContextCurrent,
      GlfwSetFramebufferSizeCallback,
      GladLoadGLLoader]"

definition compile_link_calls :: "world \<Rightarrow> call list" where
  "compile_link_calls w =
     [GlCreateShader GL_VERTEX_SHADER,
      GlShaderSource (vertexShader_name w) 1 vertexShaderSource,
      GlCompileShader (vertexShader_name w),
      GlGetShaderiv (vertexShader_name w) GL_COMPILE_STATUS] @
     (if vertex_compile_status w = 0
      then [GlGetShaderInfoLog (vertexShader_name w) 512,
            Cout (''ERROR::SHADER::VERTEX::COMPILATION_FAILED'' @ newline @
                  vertex_infoLog w @ newline)]
      else []) @
     [GlCreateShader GL_FRAGMENT_SHADER,
      GlShaderSource (fragmentShader_name w) 1 fragmentShaderSource,
      GlCompileShader (fragmentShader_name w),
      GlCreateProgram,
      GlAttachShader (shaderProgram_name w) (vertexShader_name w),
      GlAttachShader (shaderProgram_name w) (fragmentShader_name w),
      GlLinkProgram (shaderProgram_name w),
      GlGetProgramiv (shaderProgram_name w) GL_LINK_STATUS] @
     (if link_status w = 0
      then [GlGetProgramInfoLog (shaderProgram_name w) 512,
            Cout (''ERROR::SHADER::PROGRAM::LINKING_FAILED'' @ newline @
                  program_infoLog w @ newline)]
      else []) @
     [GlDeleteShader (vertexShader_name w),
      GlDeleteShader (fragmentShader_name w)]"

definition buffer_upload_calls :: "world \<Rightarrow> call list" where
  "buffer_upload_calls w =
     [GlGenVertexArrays 1,
      GlGenBuffers 1,
      GlGenBuffers 1,
      GlBindVertexArray (VAO_name w),
      GlBindBuffer GL_ARRAY_BUFFER (VBO_name w),
      GlBufferData GL_ARRAY_BUFFER 48 (Floats vertices) GL_STATIC_DRAW,
      GlBindBuffer GL_ELEMENT_ARRAY_BUFFER (EBO_name w),
      GlBufferData GL_ELEMENT_ARRAY_BUFFER 24 (UInts indices) GL_STATIC_DRAW,
      GlVertexAttribPointer 0 3 GL_FLOAT False 12 0,
      GlEnableVertexAttribArray 0,
      GlPolygonMode GL_FRONT_AND_BACK GL_LINE]"

definition cleanup_calls :: "world \<Rightarrow> call list" where
  "cleanup_calls w =
     [GlDeleteVertexArrays 1 (VAO_name w),
      GlDeleteBuffers 1 (VBO_name w),
      GlDeleteBuffers 1 (EBO_name w),
      GlfwTerminate]"

text \<open>
  The library calls of each phase. \<^verbatim>\<open>glBindVertexArray\<close> belongs to two phases: the
  buffer setup binds the vertex array at line 161 and the loop body binds it again at
  line 198.
\<close>

datatype phase = Initialization | CompileLink | BufferUpload | RenderLoop | Cleanup

fun in_phase :: "phase \<Rightarrow> call \<Rightarrow> bool" where
  "in_phase Initialization c =
     (case c of GlfwInit \<Rightarrow> True
      | GlfwWindowHint hint v \<Rightarrow> True
      | GlfwCreateWindow width height title \<Rightarrow> True
      | GlfwMakeContextCurrent \<Rightarrow> True
      | GlfwSetFramebufferSizeCallback \<Rightarrow> True
      | GladLoadGLLoader \<Rightarrow> True
      | _ \<Rightarrow> False)"
| "in_phase CompileLink c =
     (case c of GlCreateShader ty \<Rightarrow> True
      | GlShaderSource shader n src \<Rightarrow> True
      | GlCompileShader shader \<Rightarrow> True
      | GlGetShaderiv shader pname \<Rightarrow> True
      | GlGetShaderInfoLog shader n \<Rightarrow> True
      | GlCreateProgram \<Rightarrow> True
      | GlAttachShader program shader \<Rightarrow> True
      | GlLinkProgram program \<Rightarrow> True
      | GlGetProgramiv program pname \<Rightarrow> True
      | GlGetProgramInfoLog program n \<Rightarrow> True
      | GlDeleteShader shader \<Rightarrow> True
      | Cout s \<Rightarrow> True
      | _ \<Rightarrow> False)"
| "in_phase BufferUpload c =
     (case c of GlGenVertexArrays n \<Rightarrow> True
      | GlGenBuffers n \<Rightarrow> True
      | GlBindVertexArray array \<Rightarrow> True
      | GlBindBuffer target buffer \<Rightarrow> True
      | GlBufferData target n d usage \<Rightarrow> True
      | GlVertexAttribPointer index n ty normalized stride offset \<Rightarrow> True
      | GlEnableVertexAttribArray index \<Rightarrow> True
      | GlPolygonMode face mode \<Rightarrow> True
      | _ \<Rightarrow> False)"
| "in_phase RenderLoop c =
     (case c of GlfwWindowShouldClose \<Rightarrow> True
      | GlfwGetKey k \<Rightarrow> True
      | GlfwSetWindowShouldClose v \<Rightarrow> True
      | GlClearColor r g b a \<Rightarrow> True
      | GlClear bits \<Rightarrow> True
      | GlUseProgram program \<Rightarrow> True
      | GlBindVertexArray array \<Rightarrow> True
      | GlDrawElements mode n ty offset \<Rightarrow> True
      | GlfwSwapBuffers \<Rightarrow> True
      | GlfwPollEvents \<Rightarrow> True
      | GlViewport x y width height \<Rightarrow> True
      | _ \<Rightarrow> False)"
| "in_phase Cleanup c =
     (case c of GlDeleteVertexArrays n array \<Rightarrow> True
      | GlDeleteBuffers n buffer \<Rightarrow> True
      | GlfwTerminate \<Rightarrow> True
      | _ \<Rightarrow> False)"

definition phases_of :: "call \<Rightarrow> phase list" where
  "phases_of c =
     filter (\<lambda>p. in_phase p c) [Initialization, CompileLink, BufferUpload, RenderLoop, Cleanup]"

section \<open>Example worlds\<close>

text \<open>
  \<open>world_escape\<close>: everything succeeds; the first frame brings a resize and the press
  of ESC, so the second iteration asks the window to close and the third test leaves the
  loop. The other worlds differ from it in one answer: no window, no loader, a vertex
  shader that does not compile, a fragment shader that does not compile (the last two
  with the link failure that follows from it). In \<open>world_window_closed\<close> the user
  closes the window during the second frame.
\<close>

definition fresh_window :: window where
  "fresh_window = \<lparr>keys = (\<lambda>k. GLFW_RELEASE), should_close = False\<rparr>"

definition world_escape :: world where
  "world_escape =
     \<lparr>glfwCreateWindow_result = Some fresh_window,
      gladLoadGLLoader_result = 1,
      vertexShader_name = 1,
      vertex_compile_status = 1,
      vertex_infoLog = [],
      fragmentShader_name = 2,
      fragment_compile_status = 1,
      shaderProgram_name = 3,
      link_status = 1,
      program_infoLog = [],
      VAO_name = 1,
      VBO_name = 1,
      EBO_name = 2,
      frames = [[FramebufferSize 1024 768, Key GLFW_KEY_ESCAPE GLFW_PRESS], []]\<rparr>"

definition world_no_window :: world where
  "world_no_window = world_escape\<lparr>glfwCreateWindow_result := None\<rparr>"

definition world_no_loader :: world where
  "world_no_loader = world_escape\<lparr>gladLoadGLLoader_result := 0\<rparr>"

definition world_vertex_fails :: world where
  "world_vertex_fails =
     world_escape\<lparr>vertex_compile_status := 0,
                   vertex_infoLog := ''0:5(1): error: syntax error'',
                   link_status := 0,
                   program_infoLog := ''error: linking with uncompiled shader''\<rparr>"

definition world_fragment_fails :: world where
  "world_fragment_fails =
     world_escape\<lparr>fragment_compile_status := 0,
                   link_status := 0,
                   program_infoLog := ''error: linking with uncompiled shader''\<rparr>"

definition world_window_closed :: world where
  "world_window_closed = world_escape\<lparr>frames := [[], [Key GLFW_KEY_ESCAPE GLFW_RELEASE, WindowClose], []]\<rparr>"

section \<open>The calls of the render loop\<close>

lemma glfwPollEvents_viewport:
  "c \<in> set (fst (glfwPollEvents q win)) \<Longrightarrow> \<exists>width height. c = GlViewport 0 0 width height"
  by (induction q win rule: glfwPollEvents.induct)
     (auto simp: framebuffer_size_callback_def case_prod_beta)

lemma glfwPollEvents_calls:
  "c \<in> set (fst (glfwPollEvents q win)) \<Longrightarrow> loop_call p v c"
  by (induction q win rule: glfwPollEvents.induct)
     (auto simp: framebuffer_size_callback_def loop_call_def case_prod_beta)

lemma processInput_calls:
  "c \<in> set (fst (processInput win)) \<Longrightarrow> loop_call p v c"
  by (auto simp: processInput_def loop_call_def split: if_splits)

lemma loop_body_calls:
  "c \<in> set (fst (loop_body p v q win)) \<Longrightarrow> loop_call p v c"
  using processInput_calls [of c win p v]
        glfwPollEvents_calls [of c q "snd (processInput win)" p v]
  by (auto simp: loop_body_def case_prod_beta loop_call_def)

lemma render_loop_calls:
  "c \<in> set (fst (render_loop p v qs win)) \<Longrightarrow> loop_call p v c"
proof (induction qs arbitrary: win)
  case Nil
  then show ?case by (simp add: loop_call_def)
next
  case (Cons q qs)
  show ?case
  proof (cases "glfwWindowShouldClose win")
    case True
    with Cons.prems show ?thesis by (simp add: loop_call_def)
  next
    case False
    with Cons.prems have
      "c = GlfwWindowShouldClose \<or> c \<in> set (fst (loop_body p v q win))
       \<or> c \<in> set (fst (render_loop p v qs (snd (loop_body p v q win))))"
      by (auto simp: case_prod_beta)
    then show ?thesis
      using loop_body_calls [of c p v q win] Cons.IH [of "snd (loop_body p v q win)"]
      by (auto simp: loop_call_def)
  qed
qed

lemma render_loop_starts:
  "\<exists>cs. fst (render_loop p v qs win) = GlfwWindowShouldClose # cs"
  by (cases qs) (auto simp: case_prod_beta)

lemma render_loop_filter_none:
  assumes "\<And>c. loop_call p v c \<Longrightarrow> \<not> P c"
  shows "filter P (fst (render_loop p v qs win)) = []"
  using assms render_loop_calls [of _ p v qs win] by (auto simp: filter_empty_conv)

lemma render_loop_filter_all:
  assumes "\<And>c. loop_call p v c \<Longrightarrow> P c"
  shows "filter P (fst (render_loop p v qs win)) = fst (render_loop p v qs win)"
  using assms render_loop_calls [of _ p v qs win] by (auto simp: filter_id_conv)

lemma loop_call_not_draw_other:
  "loop_call p v c \<Longrightarrow> is_draw_call c \<Longrightarrow> c = GlDrawElements GL_TRIANGLES 6 GL_UNSIGNED_INT 0"
  by (cases c) (auto simp: loop_call_def is_draw_call_def)

lemma loop_call_not_upload: "loop_call p v c \<Longrightarrow> \<not> is_glBufferData c"
  by (cases c) (auto simp: loop_call_def is_glBufferData_def)

lemma loop_call_not_hint: "loop_call p v c \<Longrightarrow> \<not> is_glfwWindowHint c"
  by (cases c) (auto simp: loop_call_def is_glfwWindowHint_def)

lemma loop_call_not_create: "loop_call p v c \<Longrightarrow> \<not> is_glfwCreateWindow c"
  by (cases c) (auto simp: loop_call_def is_glfwCreateWindow_def)

lemma loop_call_not_polygon: "loop_call p v c \<Longrightarrow> \<not> is_glPolygonMode c"
  by (cases c) (auto simp: loop_call_def is_glPolygonMode_def)

lemma loop_call_not_report: "loop_call p v c \<Longrightarrow> \<not> is_error_report c"
  by (cases c) (auto simp: loop_call_def is_error_report_def)

lemma loop_call_not_compile: "loop_call p v c \<Longrightarrow> \<not> is_compile_or_link c"
  by (cases c) (auto simp: loop_call_def is_compile_or_link_def)

lemma loop_call_not_query: "loop_call p v c \<Longrightarrow> \<not> is_status_query c"
  by (cases c) (auto simp: loop_call_def is_status_query_def)

lemma loop_call_phases:
  "loop_call p v c \<Longrightarrow> phases_of c = [RenderLoop] \<or> c = GlBindVertexArray v"
  by (cases c) (auto simp: loop_call_def phases_of_def)

lemma loop_body_draws:
  "filter is_draw_call (fst (loop_body p v q win)) = [GlDrawElements GL_TRIANGLES 6 GL_UNSIGNED_INT 0]"
proof -
  have a: "filter is_draw_call (fst (processInput win)) = []"
    by (simp add: processInput_def is_draw_call_def)
  have b: "filter is_draw_call (fst (glfwPollEvents q (snd (processInput win)))) = []"
    by (auto simp: filter_empty_conv is_draw_call_def dest!: glfwPollEvents_viewport)
  show ?thesis
    by (simp add: loop_body_def case_prod_beta a b is_draw_call_def)
qed

lemma loop_body_swaps:
  "filter (\<lambda>c. c = GlfwSwapBuffers) (fst (loop_body p v q win)) = [GlfwSwapBuffers]"
proof -
  have a: "filter (\<lambda>c. c = GlfwSwapBuffers) (fst (processInput win)) = []"
    by (simp add: processInput_def)
  have b: "filter (\<lambda>c. c = GlfwSwapBuffers) (fst (glfwPollEvents q (snd (processInput win)))) = []"
    by (auto simp: filter_empty_conv dest!: glfwPollEvents_viewport)
  show ?thesis
    by (simp add: loop_body_def case_prod_beta a b)
qed

lemma render_loop_draws:
  "filter is_draw_call (fst (render_loop p v qs win)) =
     replicate (length (filter (\<lambda>c. c = GlfwSwapBuffers) (fst (render_loop p v qs win))))
       (GlDrawElements GL_TRIANGLES 6 GL_UNSIGNED_INT 0)"
proof (induction qs arbitrary: win)
  case Nil
  show ?case by (simp add: is_draw_call_def)
next
  case (Cons q qs)
  show ?case
  proof (cases "glfwWindowShouldClose win")
    case True
    then show ?thesis by (simp add: is_draw_call_def)
  next
    case False
    have "\<not> is_draw_call GlfwWindowShouldClose"
      by (simp add: is_draw_call_def)
    with False show ?thesis
      by (simp add: case_prod_beta loop_body_draws loop_body_swaps
            Cons.IH [of "snd (loop_body p v q win)"])
  qed
qed

lemma glfwPollEvents_keeps_close:
  "should_close win \<Longrightarrow> should_close (snd (glfwPollEvents q win))"
  by (induction q win rule: glfwPollEvents.induct) (simp_all add: case_prod_beta)

lemma glfwPollEvents_close_request:
  "WindowClose \<in> set q \<Longrightarrow> should_close (snd (glfwPollEvents q win))"
proof (induction q win rule: glfwPollEvents.induct)
  case (3 es win)
  show ?case
    using glfwPollEvents_keeps_close [of "win\<lparr>should_close := True\<rparr>" es] by simp
qed (simp_all add: case_prod_beta)

lemma render_loop_closed_window:
  "glfwWindowShouldClose win \<Longrightarrow> snd (render_loop p v qs win)"
  by (cases qs) simp_all

lemma render_loop_left_on_close_request:
  "q \<in> set qs \<Longrightarrow> WindowClose \<in> set q \<Longrightarrow> snd (render_loop p v qs win)"
proof (induction qs arbitrary: win)
  case Nil
  then show ?case by simp
next
  case (Cons q' qs)
  show ?case
  proof (cases "glfwWindowShouldClose win")
    case True
    then show ?thesis by (rule render_loop_closed_window)
  next
    case False
    show ?thesis
    proof (cases "q' = q")
      case True
      with Cons.prems have "should_close (snd (loop_body p v q' win))"
        by (simp add: loop_body_def case_prod_beta glfwPollEvents_close_request)
      then have "snd (render_loop p v qs (snd (loop_body p v q' win)))"
        by (simp add: render_loop_closed_window glfwWindowShouldClose_def)
      with False show ?thesis
        by (simp add: case_prod_beta)
    next
      case neq: False
      with Cons.prems have "q \<in> set qs" by auto
      then have "snd (render_loop p v qs (snd (loop_body p v q' win)))"
        using Cons.IH Cons.prems(2) by blast
      with False show ?thesis
        by (simp add: case_prod_beta)
    qed
  qed
qed

section \<open>The three ways through main\<close>

text \<open>
  \<open>main\<close> ends at line 53 when no window was created, at line 69 when the loader
  failed, and otherwise runs on into the render loop.
\<close>

lemma main_cases:
  obtains "glfwCreateWindow_result w = None"
  | win where "glfwCreateWindow_result w = Some win" "gladLoadGLLoader_result w = 0"
  | win where "glfwCreateWindow_result w = Some win" "gladLoadGLLoader_result w \<noteq> 0"
  by (cases "glfwCreateWindow_result w") auto

lemma main_no_window:
  "glfwCreateWindow_result w = None \<Longrightarrow>
   main w = (take 5 initialization_calls @
             [Cout (''Failed to create GLFW Window'' @ newline), GlfwTerminate], Some (- 1))"
  by (simp add: main_def initialization_calls_def SCR_WIDTH_def SCR_HEIGHT_def)

lemma main_no_loader:
  "glfwCreateWindow_result w = Some win \<Longrightarrow> gladLoadGLLoader_result w = 0 \<Longrightarrow>
   main w = (initialization_calls @ [Cout (''Failed to initialize GLAD'' @ newline)], Some (- 1))"
  by (simp add: main_def initialization_calls_def SCR_WIDTH_def SCR_HEIGHT_def)

lemma main_running:
  "glfwCreateWindow_result w = Some win \<Longrightarrow> gladLoadGLLoader_result w \<noteq> 0 \<Longrightarrow>
   main w =
     (initialization_calls @ compile_link_calls w @ buffer_upload_calls w @
      fst (render_loop (shaderProgram_name w) (VAO_name w) (frames w) win) @
      (if snd (render_loop (shaderProgram_name w) (VAO_name w) (frames w) win)
       then cleanup_calls w else []),
      if snd (render_loop (shaderProgram_name w) (VAO_name w) (frames w) win)
      then Some 0 else None)"
  by (simp add: main_def Let_def case_prod_beta initialization_calls_def compile_link_calls_def
        buffer_upload_calls_def cleanup_calls_def SCR_WIDTH_def SCR_HEIGHT_def
        vertices_def indices_def sizeof_float_def sizeof_unsigned_int_def)

lemma main_before_loop:
  assumes "glfwCreateWindow_result w = Some win" "gladLoadGLLoader_result w \<noteq> 0"
  shows "takeWhile (\<lambda>c. c \<noteq> GlfwWindowShouldClose) (fst (main w)) =
           initialization_calls @ compile_link_calls w @ buffer_upload_calls w"
proof -
  obtain cs where cs:
    "fst (render_loop (shaderProgram_name w) (VAO_name w) (frames w) win) = GlfwWindowShouldClose # cs"
    using render_loop_starts by blast
  have pre: "\<forall>c \<in> set (initialization_calls @ compile_link_calls w @ buffer_upload_calls w).
               c \<noteq> GlfwWindowShouldClose"
    by (auto simp: initialization_calls_def compile_link_calls_def buffer_upload_calls_def)
  have "takeWhile (\<lambda>c. c \<noteq> GlfwWindowShouldClose)
          ((initialization_calls @ compile_link_calls w @ buffer_upload_calls w) @
           GlfwWindowShouldClose # cs @
           (if snd (render_loop (shaderProgram_name w) (VAO_name w) (frames w) win)
            then cleanup_calls w else [])) =
        initialization_calls @ compile_link_calls w @ buffer_upload_calls w"
    using pre by (subst takeWhile_append2) auto
  then show ?thesis
    by (simp add: main_running [OF assms] cs)
qed

lemma main_from_loop:
  assumes "glfwCreateWindow_result w = Some win" "gladLoadGLLoader_result w \<noteq> 0"
  shows "dropWhile (\<lambda>c. c \<noteq> GlfwWindowShouldClose) (fst (main w)) =
           fst (render_loop (shaderProgram_name w) (VAO_name w) (frames w) win) @
           (if snd (render_loop (shaderProgram_name w) (VAO_name w) (frames w) win)
            then cleanup_calls w else [])"
proof -
  obtain cs where cs:
    "fst (render_loop (shaderProgram_name w) (VAO_name w) (frames w) win) = GlfwWindowShouldClose # cs"
    using render_loop_starts by blast
  have pre: "\<forall>c \<in> set (initialization_calls @ compile_link_calls w @ buffer_upload_calls w).
               c \<noteq> GlfwWindowShouldClose"
    by (auto simp: initialization_calls_def compile_link_calls_def buffer_upload_calls_def)
  have "dropWhile (\<lambda>c. c \<noteq> GlfwWindowShouldClose)
          ((initialization_calls @ compile_link_calls w @ buffer_upload_calls w) @
           GlfwWindowShouldClose # cs @
           (if snd (render_loop (shaderProgram_name w) (VAO_name w) (frames w) win)
            then cleanup_calls w else [])) =
        GlfwWindowShouldClose # cs @
           (if snd (render_loop (shaderProgram_name w) (VAO_name w) (frames w) win)
            then cleanup_calls w else [])"
    using pre by (subst dropWhile_append2) auto
  then show ?thesis
    by (simp add: main_running [OF assms] cs)
qed

lemma main_draw_calls:
  assumes "c \<in> set (fst (main w))" "is_draw_call c"
  shows "c = GlDrawElements GL_TRIANGLES 6 GL_UNSIGNED_INT 0"
proof (cases w rule: main_cases)
  case 1
  with assms show ?thesis
    by (auto simp: main_no_window initialization_calls_def is_draw_call_def)
next
  case (2 win)
  with assms show ?thesis
    by (auto simp: main_no_loader initialization_calls_def is_draw_call_def)
next
  case (3 win)
  with assms have
    "c \<in> set (fst (render_loop (shaderProgram_name w) (VAO_name w) (frames w) win))"
    by (auto simp: main_running initialization_calls_def compile_link_calls_def
          buffer_upload_calls_def cleanup_calls_def is_draw_call_def split: if_splits)
  then show ?thesis
    using assms(2) render_loop_calls loop_call_not_draw_other by blast
qed

lemma main_uploads:
  assumes "c \<in> set (fst (main w))" "is_glBufferData c"
  shows "c = GlBufferData GL_ARRAY_BUFFER 48 (Floats vertices) GL_STATIC_DRAW \<or>
         c = GlBufferData GL_ELEMENT_ARRAY_BUFFER 24 (UInts indices) GL_STATIC_DRAW"
proof (cases w rule: main_cases)
  case 1
  with assms show ?thesis
    by (auto simp: main_no_window initialization_calls_def is_glBufferData_def)
next
  case (2 win)
  with assms show ?thesis
    by (auto simp: main_no_loader initialization_calls_def is_glBufferData_def)
next
  case (3 win)
  with assms have
    "c \<in> set (buffer_upload_calls w) \<or>
     c \<in> set (fst (render_loop (shaderProgram_name w) (VAO_name w) (frames w) win))"
    by (auto simp: main_running initialization_calls_def compile_link_calls_def
          cleanup_calls_def is_glBufferData_def split: if_splits)
  then show ?thesis
  proof
    assume "c \<in> set (buffer_upload_calls w)"
    with assms(2) show ?thesis
      by (auto simp: buffer_upload_calls_def is_glBufferData_def)
  next
    assume "c \<in> set (fst (render_loop (shaderProgram_name w) (VAO_name w) (frames w) win))"
    then show ?thesis
      using assms(2) render_loop_calls loop_call_not_upload by blast
  qed
qed

lemma main_ignores_fragment_status:
  "main (w\<lparr>fragment_compile_status := s\<rparr>) = main w"
proof (cases w rule: main_cases)
  case 1
  then show ?thesis
    using main_no_window [of w] main_no_window [of "w\<lparr>fragment_compile_status := s\<rparr>"]
    by simp
next
  case (2 win)
  then show ?thesis
    using main_no_loader [of w win] main_no_loader [of "w\<lparr>fragment_compile_status := s\<rparr>" win]
    by simp
next
  case (3 win)
  then show ?thesis
    using main_running [of w win] main_running [of "w\<lparr>fragment_compile_status := s\<rparr>" win]
    by (simp add: compile_link_calls_def buffer_upload_calls_def cleanup_calls_def)
qed

lemma main_reports_removed:
  assumes "glfwCreateWindow_result w = Some win" "gladLoadGLLoader_result w \<noteq> 0"
  shows "filter (\<lambda>c. \<not> is_error_report c) (fst (main w)) =
           fst (main (w\<lparr>vertex_compile_status := 1, link_status := 1\<rparr>))"
    and "snd (main w) = snd (main (w\<lparr>vertex_compile_status := 1, link_status := 1\<rparr>))"
proof -
  let ?w = "w\<lparr>vertex_compile_status := 1, link_status := 1\<rparr>"
  let ?loop = "render_loop (shaderProgram_name w) (VAO_name w) (frames w) win"
  have a: "glfwCreateWindow_result ?w = Some win" and b: "gladLoadGLLoader_result ?w \<noteq> 0"
    using assms by simp_all
  have keep: "filter (\<lambda>c. \<not> is_error_report c) (fst ?loop) = fst ?loop"
    by (rule render_loop_filter_all) (rule loop_call_not_report)
  show "filter (\<lambda>c. \<not> is_error_report c) (fst (main w)) = fst (main ?w)"
    by (simp add: main_running [OF assms] main_running [OF a b]
          keep [unfolded is_error_report_def] initialization_calls_def
          compile_link_calls_def buffer_upload_calls_def cleanup_calls_def is_error_report_def)
  show "snd (main w) = snd (main ?w)"
    by (simp add: main_running [OF assms] main_running [OF a b])
qed

lemma main_compiles_once:
  assumes "glfwCreateWindow_result w = Some win" "gladLoadGLLoader_result w \<noteq> 0"
  shows "filter is_compile_or_link (fst (main w)) =
           [GlCompileShader (vertexShader_name w),
            GlCompileShader (fragmentShader_name w),
            GlLinkProgram (shaderProgram_name w)]"
proof -
  let ?loop = "render_loop (shaderProgram_name w) (VAO_name w) (frames w) win"
  have none: "filter is_compile_or_link (fst ?loop) = []"
    by (rule render_loop_filter_none) (rule loop_call_not_compile)
  show ?thesis
    by (simp add: main_running [OF assms] none initialization_calls_def compile_link_calls_def
          buffer_upload_calls_def cleanup_calls_def is_compile_or_link_def)
qed

lemma main_logs_failures:
  assumes "glfwCreateWindow_result w = Some win" "gladLoadGLLoader_result w \<noteq> 0"
  shows "vertex_compile_status w = 0 \<Longrightarrow>
           Cout (''ERROR::SHADER::VERTEX::COMPILATION_FAILED'' @ newline @
                 vertex_infoLog w @ newline) \<in> set (fst (main w))"
    and "link_status w = 0 \<Longrightarrow>
           Cout (''ERROR::SHADER::PROGRAM::LINKING_FAILED'' @ newline @
                 program_infoLog w @ newline) \<in> set (fst (main w))"
  by (simp_all add: main_running [OF assms] compile_link_calls_def)

lemma main_world_escape:
  "main world_escape =
     (initialization_calls @ compile_link_calls world_escape @ buffer_upload_calls world_escape @
      [GlfwWindowShouldClose,
       GlfwGetKey GLFW_KEY_ESCAPE,
       GlClearColor 0.2 0.3 0.3 1.0,
       GlClear GL_COLOR_BUFFER_BIT,
       GlUseProgram 3,
       GlBindVertexArray 1,
       GlDrawElements GL_TRIANGLES 6 GL_UNSIGNED_INT 0,
       GlfwSwapBuffers,
       GlfwPollEvents,
       GlViewport 0 0 1024 768,
       GlfwWindowShouldClose,
       GlfwGetKey GLFW_KEY_ESCAPE,
       GlfwSetWindowShouldClose True,
       GlClearColor 0.2 0.3 0.3 1.0,
       GlClear GL_COLOR_BUFFER_BIT,
       GlUseProgram 3,
       GlBindVertexArray 1,
       GlDrawElements GL_TRIANGLES 6 GL_UNSIGNED_INT 0,
       GlfwSwapBuffers,
       GlfwPollEvents,
       GlfwWindowShouldClose] @ cleanup_calls world_escape,
      Some 0)"
proof -
  have loop: "render_loop 3 1 [[FramebufferSize 1024 768, Key GLFW_KEY_ESCAPE GLFW_PRESS], []] fresh_window =
     ([GlfwWindowShouldClose,
       GlfwGetKey GLFW_KEY_ESCAPE,
       GlClearColor 0.2 0.3 0.3 1.0,
       GlClear GL_COLOR_BUFFER_BIT,
       GlUseProgram 3,
       GlBindVertexArray 1,
       GlDrawElements GL_TRIANGLES 6 GL_UNSIGNED_INT 0,
       GlfwSwapBuffers,
       GlfwPollEvents,
       GlViewport 0 0 1024 768,
       GlfwWindowShouldClose,
       GlfwGetKey GLFW_KEY_ESCAPE,
       GlfwSetWindowShouldClose True,
       GlClearColor 0.2 0.3 0.3 1.0,
       GlClear GL_COLOR_BUFFER_BIT,
       GlUseProgram 3,
       GlBindVertexArray 1,
       GlDrawElements GL_TRIANGLES 6 GL_UNSIGNED_INT 0,
       GlfwSwapBuffers,
       GlfwPollEvents,
       GlfwWindowShouldClose], True)"
    by (simp add: fresh_window_def loop_body_def processInput_def glfwGetKey_def
          glfwWindowShouldClose_def glfwSetWindowShouldClose_def framebuffer_size_callback_def)
  have "glfwCreateWindow_result world_escape = Some fresh_window"
       "gladLoadGLLoader_result world_escape \<noteq> 0"
    by (simp_all add: world_escape_def)
  from main_running [OF this] loop show ?thesis
    by (simp add: world_escape_def)
qed

section \<open>The claims\<close>

text \<open>
  C1. The claim: every enumerated failure is detected by a status query and logged, and
  in particular a failed compilation of either shader is detected by a compile-status
  query. The program queries the compile status of the vertex shader only. In the world
  whose fragment shader does not compile, both shaders are compiled and the program
  linked, the only status queries are the compile status of shader 1 (the vertex shader)
  and the link status of program 3, the only report is the link failure, and the run is
  the same as when the fragment shader does compile.
\<close>

theorem fragment_compile_status_unchecked:
  "fragment_compile_status world_fragment_fails = 0
   \<and> vertex_compile_status world_fragment_fails \<noteq> 0
   \<and> filter is_compile_or_link (fst (main world_fragment_fails)) =
       [GlCompileShader 1, GlCompileShader 2, GlLinkProgram 3]
   \<and> filter is_status_query (fst (main world_fragment_fails)) =
       [GlGetShaderiv 1 GL_COMPILE_STATUS, GlGetProgramiv 3 GL_LINK_STATUS]
   \<and> filter is_error_report (fst (main world_fragment_fails)) =
       [GlGetProgramInfoLog 3 512,
        Cout (''ERROR::SHADER::PROGRAM::LINKING_FAILED'' @ newline @
              ''error: linking with uncompiled shader'' @ newline)]
   \<and> main (world_fragment_fails\<lparr>fragment_compile_status := 1\<rparr>) = main world_fragment_fails"
proof -
  let ?w = world_fragment_fails
  have a: "glfwCreateWindow_result ?w = Some fresh_window" and b: "gladLoadGLLoader_result ?w \<noteq> 0"
    by (simp_all add: world_fragment_fails_def world_escape_def)
  have fields: "fragment_compile_status ?w = 0" "vertex_compile_status ?w \<noteq> 0"
    "link_status ?w = 0" "vertexShader_name ?w = 1" "fragmentShader_name ?w = 2"
    "shaderProgram_name ?w = 3" "program_infoLog ?w = ''error: linking with uncompiled shader''"
    by (simp_all add: world_fragment_fails_def world_escape_def)
  have q: "filter is_status_query (fst (render_loop p v qs win)) = []" for p v qs win
    by (rule render_loop_filter_none) (rule loop_call_not_query)
  have r: "filter is_error_report (fst (render_loop p v qs win)) = []" for p v qs win
    by (rule render_loop_filter_none) (rule loop_call_not_report)
  have compiles: "filter is_compile_or_link (fst (main ?w)) =
       [GlCompileShader 1, GlCompileShader 2, GlLinkProgram 3]"
    using main_compiles_once [OF a b] by (simp add: fields)
  have queries: "filter is_status_query (fst (main ?w)) =
       [GlGetShaderiv 1 GL_COMPILE_STATUS, GlGetProgramiv 3 GL_LINK_STATUS]"
    by (simp add: main_running [OF a b] q fields
          initialization_calls_def compile_link_calls_def buffer_upload_calls_def
          cleanup_calls_def is_status_query_def)
  have reports: "filter is_error_report (fst (main ?w)) =
       [GlGetProgramInfoLog 3 512,
        Cout (''ERROR::SHADER::PROGRAM::LINKING_FAILED'' @ newline @
              ''error: linking with uncompiled shader'' @ newline)]"
    by (simp add: main_running [OF a b] r fields
          initialization_calls_def compile_link_calls_def buffer_upload_calls_def
          cleanup_calls_def is_error_report_def)
  from fields(1,2) compiles queries reports main_ignores_fragment_status [where w = ?w and s = 1]
  show ?thesis
    by blast
qed

text \<open>
  C2. In a run that reaches the render loop, \<^verbatim>\<open>glPolygonMode\<close> is called once, with
  \<^verbatim>\<open>GL_FRONT_AND_BACK\<close> and \<^verbatim>\<open>GL_LINE\<close>, and before the first test of the loop;
  every iteration of the loop, on any event queue and window, issues exactly one draw
  call, \<^verbatim>\<open>glDrawElements(GL_TRIANGLES, 6, GL_UNSIGNED_INT, 0)\<close>; and the draw calls of
  the whole run are that call, once for each \<^verbatim>\<open>glfwSwapBuffers\<close>.
\<close>

theorem render_loop_draws_wireframe_quad:
  assumes "glfwCreateWindow_result w = Some win" "gladLoadGLLoader_result w \<noteq> 0"
  shows "filter is_glPolygonMode (fst (main w)) = [GlPolygonMode GL_FRONT_AND_BACK GL_LINE]
    \<and> filter is_glPolygonMode (takeWhile (\<lambda>c. c \<noteq> GlfwWindowShouldClose) (fst (main w))) =
        [GlPolygonMode GL_FRONT_AND_BACK GL_LINE]
    \<and> filter is_draw_call (fst (loop_body (shaderProgram_name w) (VAO_name w) queue win')) =
        [GlDrawElements GL_TRIANGLES 6 GL_UNSIGNED_INT 0]
    \<and> filter is_draw_call (fst (main w)) =
        replicate (length (filter (\<lambda>c. c = GlfwSwapBuffers) (fst (main w))))
          (GlDrawElements GL_TRIANGLES 6 GL_UNSIGNED_INT 0)"
proof -
  let ?loop = "render_loop (shaderProgram_name w) (VAO_name w) (frames w) win"
  have no_mode: "filter is_glPolygonMode (fst ?loop) = []"
    by (rule render_loop_filter_none) (rule loop_call_not_polygon)
  have one: "filter is_glPolygonMode (fst (main w)) = [GlPolygonMode GL_FRONT_AND_BACK GL_LINE]"
    by (simp add: main_running [OF assms] no_mode initialization_calls_def compile_link_calls_def
          buffer_upload_calls_def cleanup_calls_def is_glPolygonMode_def)
  have before: "filter is_glPolygonMode (takeWhile (\<lambda>c. c \<noteq> GlfwWindowShouldClose) (fst (main w))) =
        [GlPolygonMode GL_FRONT_AND_BACK GL_LINE]"
    by (simp add: main_before_loop [OF assms] initialization_calls_def compile_link_calls_def
          buffer_upload_calls_def is_glPolygonMode_def)
  have draws: "filter is_draw_call (fst (main w)) =
        replicate (length (filter (\<lambda>c. c = GlfwSwapBuffers) (fst (main w))))
          (GlDrawElements GL_TRIANGLES 6 GL_UNSIGNED_INT 0)"
    by (simp add: main_running [OF assms] render_loop_draws [symmetric] initialization_calls_def
          compile_link_calls_def buffer_upload_calls_def cleanup_calls_def is_draw_call_def)
  from one before draws loop_body_draws show ?thesis
    by blast
qed

theorem render_loop_draws_wireframe_quad_witness:
  "glfwCreateWindow_result world_escape = Some fresh_window
   \<and> gladLoadGLLoader_result world_escape \<noteq> 0
   \<and> filter is_glPolygonMode (fst (main world_escape)) = [GlPolygonMode GL_FRONT_AND_BACK GL_LINE]
   \<and> filter is_draw_call (fst (main world_escape)) =
       [GlDrawElements GL_TRIANGLES 6 GL_UNSIGNED_INT 0,
        GlDrawElements GL_TRIANGLES 6 GL_UNSIGNED_INT 0]"
proof -
  have a: "glfwCreateWindow_result world_escape = Some fresh_window"
    and b: "gladLoadGLLoader_result world_escape \<noteq> 0"
    by (simp_all add: world_escape_def)
  have swaps: "length (filter (\<lambda>c. c = GlfwSwapBuffers) (fst (main world_escape))) = 2"
    by (simp add: main_world_escape initialization_calls_def compile_link_calls_def
          buffer_upload_calls_def cleanup_calls_def)
  from render_loop_draws_wireframe_quad [OF a b, of "[]" fresh_window] swaps a b
  show ?thesis
    by (simp add: numeral_2_eq_2)
qed

text \<open>
  C3. The vertex array has 12 entries, four positions of three components, and the index
  array has 6; in every world, whatever the libraries answer, a buffer upload carries one
  of these two fixed arrays and nothing else.
\<close>

theorem only_data_fixed_arrays:
  "length vertices = 4 * 3
   \<and> length vertices = 12
   \<and> length indices = 6
   \<and> (\<forall>c \<in> set (fst (main w)). is_glBufferData c \<longrightarrow>
        c = GlBufferData GL_ARRAY_BUFFER 48
              (Floats [0.5, 0.5, 0.0, 0.5, - 0.5, 0.0, - 0.5, - 0.5, 0.0, - 0.5, 0.5, 0.0])
              GL_STATIC_DRAW
        \<or> c = GlBufferData GL_ELEMENT_ARRAY_BUFFER 24 (UInts [0, 2, 3, 0, 1, 2]) GL_STATIC_DRAW)"
proof -
  have "length vertices = 4 * 3" "length vertices = 12"
    by (simp_all add: vertices_def)
  moreover have "length indices = 6"
    by (simp add: indices_def)
  moreover have "\<forall>c \<in> set (fst (main w)). is_glBufferData c \<longrightarrow>
        c = GlBufferData GL_ARRAY_BUFFER 48
              (Floats [0.5, 0.5, 0.0, 0.5, - 0.5, 0.0, - 0.5, - 0.5, 0.0, - 0.5, 0.5, 0.0])
              GL_STATIC_DRAW
        \<or> c = GlBufferData GL_ELEMENT_ARRAY_BUFFER 24 (UInts [0, 2, 3, 0, 1, 2]) GL_STATIC_DRAW"
    using main_uploads [of _ w] by (simp add: vertices_def indices_def)
  ultimately show ?thesis by blast
qed

theorem only_data_fixed_arrays_witness:
  "GlBufferData GL_ARRAY_BUFFER 48 (Floats vertices) GL_STATIC_DRAW \<in> set (fst (main world_escape))
   \<and> is_glBufferData (GlBufferData GL_ARRAY_BUFFER 48 (Floats vertices) GL_STATIC_DRAW)
   \<and> Floats vertices =
       Floats [0.5, 0.5, 0.0, 0.5, - 0.5, 0.0, - 0.5, - 0.5, 0.0, - 0.5, 0.5, 0.0]"
proof -
  have a: "GlBufferData GL_ARRAY_BUFFER 48 (Floats vertices) GL_STATIC_DRAW
             \<in> set (fst (main world_escape))"
    by (simp add: main_world_escape buffer_upload_calls_def)
  have b: "is_glBufferData (GlBufferData GL_ARRAY_BUFFER 48 (Floats vertices) GL_STATIC_DRAW)"
    by (simp add: is_glBufferData_def)
  from only_data_fixed_arrays [of world_escape] a b
  have "GlBufferData GL_ARRAY_BUFFER 48 (Floats vertices) GL_STATIC_DRAW =
          GlBufferData GL_ARRAY_BUFFER 48
            (Floats [0.5, 0.5, 0.0, 0.5, - 0.5, 0.0, - 0.5, - 0.5, 0.0, - 0.5, 0.5, 0.0])
            GL_STATIC_DRAW"
    by blast
  with a b show ?thesis by simp
qed

text \<open>
  C4. In a run that reaches the render loop the buffer uploads are exactly two, the
  vertex array to \<^verbatim>\<open>GL_ARRAY_BUFFER\<close> and the index array to
  \<^verbatim>\<open>GL_ELEMENT_ARRAY_BUFFER\<close>; both come before the first test of the loop, and from
  that test on, in the loop and after it, no call writes buffer contents.
\<close>

theorem buffers_uploaded_once_before_loop:
  assumes "glfwCreateWindow_result w = Some win" "gladLoadGLLoader_result w \<noteq> 0"
  shows "filter is_glBufferData (fst (main w)) =
           [GlBufferData GL_ARRAY_BUFFER 48 (Floats vertices) GL_STATIC_DRAW,
            GlBufferData GL_ELEMENT_ARRAY_BUFFER 24 (UInts indices) GL_STATIC_DRAW]
    \<and> filter is_glBufferData (takeWhile (\<lambda>c. c \<noteq> GlfwWindowShouldClose) (fst (main w))) =
           [GlBufferData GL_ARRAY_BUFFER 48 (Floats vertices) GL_STATIC_DRAW,
            GlBufferData GL_ELEMENT_ARRAY_BUFFER 24 (UInts indices) GL_STATIC_DRAW]
    \<and> filter is_glBufferData (dropWhile (\<lambda>c. c \<noteq> GlfwWindowShouldClose) (fst (main w))) = []"
proof -
  let ?loop = "render_loop (shaderProgram_name w) (VAO_name w) (frames w) win"
  have none: "filter is_glBufferData (fst ?loop) = []"
    by (rule render_loop_filter_none) (rule loop_call_not_upload)
  have whole: "filter is_glBufferData (fst (main w)) =
           [GlBufferData GL_ARRAY_BUFFER 48 (Floats vertices) GL_STATIC_DRAW,
            GlBufferData GL_ELEMENT_ARRAY_BUFFER 24 (UInts indices) GL_STATIC_DRAW]"
    by (simp add: main_running [OF assms] none initialization_calls_def compile_link_calls_def
          buffer_upload_calls_def cleanup_calls_def is_glBufferData_def)
  have before: "filter is_glBufferData (takeWhile (\<lambda>c. c \<noteq> GlfwWindowShouldClose) (fst (main w))) =
           [GlBufferData GL_ARRAY_BUFFER 48 (Floats vertices) GL_STATIC_DRAW,
            GlBufferData GL_ELEMENT_ARRAY_BUFFER 24 (UInts indices) GL_STATIC_DRAW]"
    by (simp add: main_before_loop [OF assms] initialization_calls_def compile_link_calls_def
          buffer_upload_calls_def is_glBufferData_def)
  have after: "filter is_glBufferData (dropWhile (\<lambda>c. c \<noteq> GlfwWindowShouldClose) (fst (main w))) = []"
    by (simp add: main_from_loop [OF assms] none cleanup_calls_def is_glBufferData_def)
  from whole before after show ?thesis
    by blast
qed

theorem buffers_uploaded_once_before_loop_witness:
  "glfwCreateWindow_result world_escape = Some fresh_window
   \<and> gladLoadGLLoader_result world_escape \<noteq> 0
   \<and> length (filter is_glBufferData (fst (main world_escape))) = 2
   \<and> filter is_glBufferData (dropWhile (\<lambda>c. c \<noteq> GlfwWindowShouldClose) (fst (main world_escape))) = []"
proof -
  have a: "glfwCreateWindow_result world_escape = Some fresh_window"
    and b: "gladLoadGLLoader_result world_escape \<noteq> 0"
    by (simp_all add: world_escape_def)
  from buffers_uploaded_once_before_loop [OF a b] a b show ?thesis
    by simp
qed

text \<open>
  C5. The claim reads: the program is one linear sequence, initialization, then compile
  and link, then buffer upload, then the loop, then cleanup, and no step of a later
  phase occurs before the preceding phase completes. That holds of the runs in which the
  window is created and the loader succeeds: their calls are the initialization calls,
  then the compile and link calls, then the buffer calls, then the calls of the render
  loop, then, once the loop is left, the cleanup calls, and the program returns 0; each
  call of a segment belongs to the phase of that segment and to no other, but for the
  binding of the vertex array, which the buffer setup and the loop body both issue; a
  close request in any frame makes the program leave the loop, clean up and return 0.
  The two guarded exits stop the sequence inside initialization: without a window the
  program issues the first five initialization calls, logs, terminates GLFW and returns
  -1; with a failed loader it issues the initialization calls, logs and returns -1. No
  call of the compile, buffer or loop phase occurs in either.
\<close>

theorem main_is_one_linear_sequence:
  "(glfwCreateWindow_result w = None \<longrightarrow>
      main w =
        (take 5 initialization_calls @
         [Cout (''Failed to create GLFW Window'' @ newline), GlfwTerminate], Some (- 1)))
   \<and> (glfwCreateWindow_result w \<noteq> None \<and> gladLoadGLLoader_result w = 0 \<longrightarrow>
      main w =
        (initialization_calls @ [Cout (''Failed to initialize GLAD'' @ newline)], Some (- 1)))
   \<and> (glfwCreateWindow_result w = Some win \<and> gladLoadGLLoader_result w \<noteq> 0 \<longrightarrow>
      fst (main w) =
           initialization_calls @ compile_link_calls w @ buffer_upload_calls w @
           fst (render_loop (shaderProgram_name w) (VAO_name w) (frames w) win) @
           (if snd (main w) = Some 0 then cleanup_calls w else [])
      \<and> (snd (main w) = Some 0 \<or> snd (main w) = None)
      \<and> (snd (main w) = Some 0) = snd (render_loop (shaderProgram_name w) (VAO_name w) (frames w) win)
      \<and> list_all (\<lambda>c. phases_of c = [Initialization]) initialization_calls
      \<and> list_all (\<lambda>c. phases_of c = [CompileLink]) (compile_link_calls w)
      \<and> list_all (\<lambda>c. phases_of c = [BufferUpload] \<or> c = GlBindVertexArray (VAO_name w))
          (buffer_upload_calls w)
      \<and> list_all (\<lambda>c. phases_of c = [RenderLoop] \<or> c = GlBindVertexArray (VAO_name w))
          (fst (render_loop (shaderProgram_name w) (VAO_name w) (frames w) win))
      \<and> list_all (\<lambda>c. phases_of c = [Cleanup]) (cleanup_calls w)
      \<and> ((\<exists>q \<in> set (frames w). WindowClose \<in> set q) \<longrightarrow> snd (main w) = Some 0))"
  (is "?no_window \<and> ?no_loader \<and> (?running \<longrightarrow> ?sequence)")
proof (cases "?running")
  case False
  show ?thesis
  proof (cases w rule: main_cases)
    case 1
    then show ?thesis
      by (simp add: main_no_window)
  next
    case (2 win')
    then show ?thesis
      by (simp add: main_no_loader)
  next
    case (3 win')
    with False have other: "win' \<noteq> win"
      by auto
    from 3 have "\<not> ?running"
      using other by simp
    moreover from 3 have ?no_window and ?no_loader
      by simp_all
    ultimately show ?thesis
      by blast
  qed
next
  case True
  then have assms: "glfwCreateWindow_result w = Some win" "gladLoadGLLoader_result w \<noteq> 0"
    by simp_all
  let ?loop = "render_loop (shaderProgram_name w) (VAO_name w) (frames w) win"
  have run: "fst (main w) =
           initialization_calls @ compile_link_calls w @ buffer_upload_calls w @ fst ?loop @
           (if snd (main w) = Some 0 then cleanup_calls w else [])"
    by (simp add: main_running [OF assms])
  have code: "snd (main w) = Some 0 \<or> snd (main w) = None"
    "(snd (main w) = Some 0) = snd ?loop"
    by (simp_all add: main_running [OF assms])
  have p1: "list_all (\<lambda>c. phases_of c = [Initialization]) initialization_calls"
    by (simp add: initialization_calls_def phases_of_def)
  have p2: "list_all (\<lambda>c. phases_of c = [CompileLink]) (compile_link_calls w)"
    by (simp add: compile_link_calls_def phases_of_def)
  have p3: "list_all (\<lambda>c. phases_of c = [BufferUpload] \<or> c = GlBindVertexArray (VAO_name w))
        (buffer_upload_calls w)"
    by (simp add: buffer_upload_calls_def phases_of_def)
  have p4: "list_all (\<lambda>c. phases_of c = [RenderLoop] \<or> c = GlBindVertexArray (VAO_name w)) (fst ?loop)"
    unfolding list_all_iff
  proof
    fix c
    assume "c \<in> set (fst ?loop)"
    then have "loop_call (shaderProgram_name w) (VAO_name w) c"
      by (rule render_loop_calls)
    then show "phases_of c = [RenderLoop] \<or> c = GlBindVertexArray (VAO_name w)"
      by (rule loop_call_phases)
  qed
  have p5: "list_all (\<lambda>c. phases_of c = [Cleanup]) (cleanup_calls w)"
    by (simp add: cleanup_calls_def phases_of_def)
  have exit: "(\<exists>q \<in> set (frames w). WindowClose \<in> set q) \<longrightarrow> snd (main w) = Some 0"
    using render_loop_left_on_close_request [of _ "frames w" "shaderProgram_name w" "VAO_name w" win]
      code(2) by blast
  from run code p1 p2 p3 p4 p5 exit have ?sequence
    by blast
  moreover from assms have ?no_window and ?no_loader
    by simp_all
  ultimately show ?thesis
    by blast
qed

theorem main_is_one_linear_sequence_witness:
  "glfwCreateWindow_result world_escape = Some fresh_window
   \<and> gladLoadGLLoader_result world_escape \<noteq> 0
   \<and> snd (main world_escape) = Some 0
   \<and> fst (main world_escape) =
       initialization_calls @ compile_link_calls world_escape @ buffer_upload_calls world_escape @
       fst (render_loop 3 1 [[FramebufferSize 1024 768, Key GLFW_KEY_ESCAPE GLFW_PRESS], []]
              fresh_window) @
       cleanup_calls world_escape
   \<and> glfwCreateWindow_result world_window_closed = Some fresh_window
   \<and> gladLoadGLLoader_result world_window_closed \<noteq> 0
   \<and> [Key GLFW_KEY_ESCAPE GLFW_RELEASE, WindowClose] \<in> set (frames world_window_closed)
   \<and> WindowClose \<in> set [Key GLFW_KEY_ESCAPE GLFW_RELEASE, WindowClose]
   \<and> snd (main world_window_closed) = Some 0
   \<and> glfwCreateWindow_result world_no_window = None
   \<and> main world_no_window =
       (take 5 initialization_calls @
        [Cout (''Failed to create GLFW Window'' @ newline), GlfwTerminate], Some (- 1))
   \<and> glfwCreateWindow_result world_no_loader \<noteq> None
   \<and> gladLoadGLLoader_result world_no_loader = 0
   \<and> main world_no_loader =
       (initialization_calls @ [Cout (''Failed to initialize GLAD'' @ newline)], Some (- 1))"
proof -
  have a: "glfwCreateWindow_result world_escape = Some fresh_window"
    and b: "gladLoadGLLoader_result world_escape \<noteq> 0"
    by (simp_all add: world_escape_def)
  have c: "snd (main world_escape) = Some 0"
    by (simp add: main_world_escape)
  have a': "glfwCreateWindow_result world_window_closed = Some fresh_window"
    and b': "gladLoadGLLoader_result world_window_closed \<noteq> 0"
    by (simp_all add: world_window_closed_def world_escape_def)
  have q: "[Key GLFW_KEY_ESCAPE GLFW_RELEASE, WindowClose] \<in> set (frames world_window_closed)"
    and e: "WindowClose \<in> set [Key GLFW_KEY_ESCAPE GLFW_RELEASE, WindowClose]"
    by (simp_all add: world_window_closed_def)
  have n: "glfwCreateWindow_result world_no_window = None"
    by (simp add: world_no_window_def)
  have l: "glfwCreateWindow_result world_no_loader \<noteq> None"
    and l': "gladLoadGLLoader_result world_no_loader = 0"
    by (simp_all add: world_no_loader_def world_escape_def)
  from main_is_one_linear_sequence [of world_window_closed fresh_window] a' b' q e
  have d: "snd (main world_window_closed) = Some 0"
    by blast
  from main_is_one_linear_sequence [of world_escape fresh_window] a b
  have s: "fst (main world_escape) =
       initialization_calls @ compile_link_calls world_escape @ buffer_upload_calls world_escape @
       fst (render_loop (shaderProgram_name world_escape) (VAO_name world_escape)
              (frames world_escape) fresh_window) @
       (if snd (main world_escape) = Some 0 then cleanup_calls world_escape else [])"
    by blast
  from main_is_one_linear_sequence [of world_no_window fresh_window] n
  have r1: "main world_no_window =
       (take 5 initialization_calls @
        [Cout (''Failed to create GLFW Window'' @ newline), GlfwTerminate], Some (- 1))"
    by blast
  from main_is_one_linear_sequence [of world_no_loader fresh_window] l l'
  have r2: "main world_no_loader =
       (initialization_calls @ [Cout (''Failed to initialize GLAD'' @ newline)], Some (- 1))"
    by blast
  have s': "fst (main world_escape) =
       initialization_calls @ compile_link_calls world_escape @ buffer_upload_calls world_escape @
       fst (render_loop 3 1 [[FramebufferSize 1024 768, Key GLFW_KEY_ESCAPE GLFW_PRESS], []]
              fresh_window) @
       cleanup_calls world_escape"
    using s c by (simp add: world_escape_def)
  from a b c s' a' b' q e d n r1 l l' r2 show ?thesis
    by blast
qed

text \<open>
  C5, as the claim is worded, fails on the run without a window: the program returns -1
  after seven calls, the last of them the cleanup step \<^verbatim>\<open>glfwTerminate\<close>, although
  the loader, an initialization step, was never called and no call of the compile,
  buffer or loop phase was issued. The initialization calls are not even a prefix of
  that run, so it is not the five-phase sequence.
\<close>

theorem linear_sequence_counterexample:
  "main world_no_window =
     ([GlfwInit,
       GlfwWindowHint GLFW_CONTEXT_VERSION_MAJOR (Value 3),
       GlfwWindowHint GLFW_CONTEXT_VERSION_MINOR (Value 3),
       GlfwWindowHint GLFW_OPENGL_PROFILE GLFW_OPENGL_CORE_PROFILE,
       GlfwCreateWindow 800 600 ''OpenGL - Creating a window'',
       Cout (''Failed to create GLFW Window'' @ newline),
       GlfwTerminate], Some (- 1))
   \<and> phases_of GlfwTerminate = [Cleanup]
   \<and> GlfwTerminate \<in> set (cleanup_calls world_no_window)
   \<and> GladLoadGLLoader \<in> set initialization_calls
   \<and> GladLoadGLLoader \<notin> set (fst (main world_no_window))
   \<and> take (length initialization_calls) (fst (main world_no_window)) \<noteq> initialization_calls
   \<and> fst (main world_no_window) \<noteq>
       initialization_calls @ compile_link_calls world_no_window @
       buffer_upload_calls world_no_window @
       fst (render_loop (shaderProgram_name world_no_window) (VAO_name world_no_window)
              (frames world_no_window) fresh_window) @
       (if snd (main world_no_window) = Some 0 then cleanup_calls world_no_window else [])"
proof -
  have n: "glfwCreateWindow_result world_no_window = None"
    by (simp add: world_no_window_def)
  have run: "main world_no_window =
     ([GlfwInit,
       GlfwWindowHint GLFW_CONTEXT_VERSION_MAJOR (Value 3),
       GlfwWindowHint GLFW_CONTEXT_VERSION_MINOR (Value 3),
       GlfwWindowHint GLFW_OPENGL_PROFILE GLFW_OPENGL_CORE_PROFILE,
       GlfwCreateWindow 800 600 ''OpenGL - Creating a window'',
       Cout (''Failed to create GLFW Window'' @ newline),
       GlfwTerminate], Some (- 1))"
    by (simp add: main_no_window [OF n] initialization_calls_def)
  have ph: "phases_of GlfwTerminate = [Cleanup]"
    by (simp add: phases_of_def)
  have cl: "GlfwTerminate \<in> set (cleanup_calls world_no_window)"
    by (simp add: cleanup_calls_def)
  have ld: "GladLoadGLLoader \<in> set initialization_calls"
    by (simp add: initialization_calls_def)
  have no_ld: "GladLoadGLLoader \<notin> set (fst (main world_no_window))"
    by (simp add: run)
  have pre: "take (length initialization_calls) (fst (main world_no_window)) \<noteq> initialization_calls"
    by (simp add: run initialization_calls_def)
  have seq: "fst (main world_no_window) \<noteq>
       initialization_calls @ compile_link_calls world_no_window @
       buffer_upload_calls world_no_window @
       fst (render_loop (shaderProgram_name world_no_window) (VAO_name world_no_window)
              (frames world_no_window) fresh_window) @
       (if snd (main world_no_window) = Some 0 then cleanup_calls world_no_window else [])"
  proof
    assume "fst (main world_no_window) =
       initialization_calls @ compile_link_calls world_no_window @
       buffer_upload_calls world_no_window @
       fst (render_loop (shaderProgram_name world_no_window) (VAO_name world_no_window)
              (frames world_no_window) fresh_window) @
       (if snd (main world_no_window) = Some 0 then cleanup_calls world_no_window else [])"
    then have "take (length initialization_calls) (fst (main world_no_window)) = initialization_calls"
      by simp
    with pre show False
      by contradiction
  qed
  from run ph cl ld no_ld pre seq show ?thesis
    by blast
qed

text \<open>
  C6. Without a window the program creates no second one: it logs, terminates GLFW and
  returns -1. With a failed loader it logs and returns -1. A failed vertex compilation
  and a failed link are logged; a failed fragment compilation is logged through the link
  failure it causes. Each shader is compiled once and the program linked once whatever
  the statuses, and but for the reports the run is the run of the world in which nothing
  failed, with the same exit code.
\<close>

theorem no_error_recovered_or_retried:
  "(glfwCreateWindow_result w = None \<longrightarrow>
      main w =
        ([GlfwInit,
          GlfwWindowHint GLFW_CONTEXT_VERSION_MAJOR (Value 3),
          GlfwWindowHint GLFW_CONTEXT_VERSION_MINOR (Value 3),
          GlfwWindowHint GLFW_OPENGL_PROFILE GLFW_OPENGL_CORE_PROFILE,
          GlfwCreateWindow 800 600 ''OpenGL - Creating a window'',
          Cout (''Failed to create GLFW Window'' @ newline),
          GlfwTerminate], Some (- 1)))
   \<and> (glfwCreateWindow_result w \<noteq> None \<and> gladLoadGLLoader_result w = 0 \<longrightarrow>
      main w =
        ([GlfwInit,
          GlfwWindowHint GLFW_CONTEXT_VERSION_MAJOR (Value 3),
          GlfwWindowHint GLFW_CONTEXT_VERSION_MINOR (Value 3),
          GlfwWindowHint GLFW_OPENGL_PROFILE GLFW_OPENGL_CORE_PROFILE,
          GlfwCreateWindow 800 600 ''OpenGL - Creating a window'',
          GlfwMakeContextCurrent,
          GlfwSetFramebufferSizeCallback,
          GladLoadGLLoader,
          Cout (''Failed to initialize GLAD'' @ newline)], Some (- 1)))
   \<and> (glfwCreateWindow_result w \<noteq> None \<and> gladLoadGLLoader_result w \<noteq> 0 \<longrightarrow>
        (vertex_compile_status w = 0 \<longrightarrow>
           Cout (''ERROR::SHADER::VERTEX::COMPILATION_FAILED'' @ newline @
                 vertex_infoLog w @ newline) \<in> set (fst (main w)))
      \<and> (link_status w = 0 \<longrightarrow>
           Cout (''ERROR::SHADER::PROGRAM::LINKING_FAILED'' @ newline @
                 program_infoLog w @ newline) \<in> set (fst (main w)))
      \<and> (fragment_compile_status w = 0 \<and> gl_link_rule w \<longrightarrow>
           Cout (''ERROR::SHADER::PROGRAM::LINKING_FAILED'' @ newline @
                 program_infoLog w @ newline) \<in> set (fst (main w)))
      \<and> filter is_compile_or_link (fst (main w)) =
           [GlCompileShader (vertexShader_name w),
            GlCompileShader (fragmentShader_name w),
            GlLinkProgram (shaderProgram_name w)]
      \<and> filter (\<lambda>c. \<not> is_error_report c) (fst (main w)) =
           fst (main (w\<lparr>vertex_compile_status := 1, link_status := 1\<rparr>))
      \<and> snd (main w) = snd (main (w\<lparr>vertex_compile_status := 1, link_status := 1\<rparr>)))"
proof (cases w rule: main_cases)
  case 1
  then show ?thesis
    by (simp add: main_no_window initialization_calls_def)
next
  case (2 win)
  then show ?thesis
    by (simp add: main_no_loader initialization_calls_def)
next
  case (3 win)
  have "fragment_compile_status w = 0 \<and> gl_link_rule w \<longrightarrow> link_status w = 0"
    by (auto simp: gl_link_rule_def)
  with 3 main_logs_failures [OF 3] main_compiles_once [OF 3] main_reports_removed [OF 3]
  show ?thesis
    by simp
qed

theorem no_error_recovered_or_retried_witness:
  "glfwCreateWindow_result world_no_window = None
   \<and> snd (main world_no_window) = Some (- 1)
   \<and> glfwCreateWindow_result world_no_loader \<noteq> None
   \<and> gladLoadGLLoader_result world_no_loader = 0
   \<and> snd (main world_no_loader) = Some (- 1)
   \<and> glfwCreateWindow_result world_vertex_fails \<noteq> None
   \<and> gladLoadGLLoader_result world_vertex_fails \<noteq> 0
   \<and> vertex_compile_status world_vertex_fails = 0
   \<and> link_status world_vertex_fails = 0
   \<and> Cout (''ERROR::SHADER::VERTEX::COMPILATION_FAILED'' @ newline @
            ''0:5(1): error: syntax error'' @ newline) \<in> set (fst (main world_vertex_fails))
   \<and> Cout (''ERROR::SHADER::PROGRAM::LINKING_FAILED'' @ newline @
            ''error: linking with uncompiled shader'' @ newline) \<in> set (fst (main world_vertex_fails))
   \<and> snd (main world_vertex_fails) = snd (main world_escape)
   \<and> glfwCreateWindow_result world_fragment_fails \<noteq> None
   \<and> gladLoadGLLoader_result world_fragment_fails \<noteq> 0
   \<and> fragment_compile_status world_fragment_fails = 0
   \<and> gl_link_rule world_fragment_fails
   \<and> Cout (''ERROR::SHADER::PROGRAM::LINKING_FAILED'' @ newline @
            ''error: linking with uncompiled shader'' @ newline) \<in> set (fst (main world_fragment_fails))"
proof -
  have a: "glfwCreateWindow_result world_no_window = None"
    by (simp add: world_no_window_def)
  have b: "glfwCreateWindow_result world_no_loader \<noteq> None \<and> gladLoadGLLoader_result world_no_loader = 0"
    by (simp add: world_no_loader_def world_escape_def)
  have c: "glfwCreateWindow_result world_vertex_fails \<noteq> None
           \<and> gladLoadGLLoader_result world_vertex_fails \<noteq> 0"
    and c': "vertex_compile_status world_vertex_fails = 0" "link_status world_vertex_fails = 0"
      "vertex_infoLog world_vertex_fails = ''0:5(1): error: syntax error''"
      "program_infoLog world_vertex_fails = ''error: linking with uncompiled shader''"
      "world_vertex_fails\<lparr>vertex_compile_status := 1, link_status := 1\<rparr> =
       world_escape\<lparr>vertex_infoLog := ''0:5(1): error: syntax error'',
                    program_infoLog := ''error: linking with uncompiled shader''\<rparr>"
    by (simp_all add: world_vertex_fails_def world_escape_def)
  have d: "glfwCreateWindow_result world_fragment_fails \<noteq> None
           \<and> gladLoadGLLoader_result world_fragment_fails \<noteq> 0"
    and d': "fragment_compile_status world_fragment_fails = 0 \<and> gl_link_rule world_fragment_fails"
      "program_infoLog world_fragment_fails = ''error: linking with uncompiled shader''"
    by (simp_all add: world_fragment_fails_def world_escape_def gl_link_rule_def)
  have e: "snd (main (world_escape\<lparr>vertex_infoLog := ''0:5(1): error: syntax error'',
                    program_infoLog := ''error: linking with uncompiled shader''\<rparr>)) =
           snd (main world_escape)"
    by (simp add: main_def world_escape_def Let_def case_prod_beta)
  from no_error_recovered_or_retried [of world_no_window] a
  have r1: "snd (main world_no_window) = Some (- 1)"
    by simp
  from no_error_recovered_or_retried [of world_no_loader] b
  have r2: "snd (main world_no_loader) = Some (- 1)"
    by simp
  from no_error_recovered_or_retried [of world_vertex_fails] c c' e
  have r3: "Cout (''ERROR::SHADER::VERTEX::COMPILATION_FAILED'' @ newline @
            ''0:5(1): error: syntax error'' @ newline) \<in> set (fst (main world_vertex_fails))
     \<and> Cout (''ERROR::SHADER::PROGRAM::LINKING_FAILED'' @ newline @
            ''error: linking with uncompiled shader'' @ newline) \<in> set (fst (main world_vertex_fails))
     \<and> snd (main world_vertex_fails) = snd (main world_escape)"
    by simp
  from no_error_recovered_or_retried [of world_fragment_fails] d d'
  have r4: "Cout (''ERROR::SHADER::PROGRAM::LINKING_FAILED'' @ newline @
            ''error: linking with uncompiled shader'' @ newline) \<in> set (fst (main world_fragment_fails))"
    by simp
  from a b c c'(1,2) d d'(1) r1 r2 r3 r4 show ?thesis
    by simp
qed

text \<open>
  C7. Every run starts with \<^verbatim>\<open>glfwInit\<close>, the hints major version 3, minor version 3
  and core profile, and then the creation of the window; these are the only hints and
  the only window creation of the run.
\<close>

theorem requests_opengl_33_core:
  "take 5 (fst (main w)) =
     [GlfwInit,
      GlfwWindowHint GLFW_CONTEXT_VERSION_MAJOR (Value 3),
      GlfwWindowHint GLFW_CONTEXT_VERSION_MINOR (Value 3),
      GlfwWindowHint GLFW_OPENGL_PROFILE GLFW_OPENGL_CORE_PROFILE,
      GlfwCreateWindow 800 600 ''OpenGL - Creating a window'']
   \<and> filter is_glfwWindowHint (fst (main w)) =
     [GlfwWindowHint GLFW_CONTEXT_VERSION_MAJOR (Value 3),
      GlfwWindowHint GLFW_CONTEXT_VERSION_MINOR (Value 3),
      GlfwWindowHint GLFW_OPENGL_PROFILE GLFW_OPENGL_CORE_PROFILE]
   \<and> filter is_glfwCreateWindow (fst (main w)) =
     [GlfwCreateWindow 800 600 ''OpenGL - Creating a window'']"
proof (cases w rule: main_cases)
  case 1
  then show ?thesis
    by (simp add: main_no_window initialization_calls_def is_glfwWindowHint_def
          is_glfwCreateWindow_def)
next
  case (2 win)
  then show ?thesis
    by (simp add: main_no_loader initialization_calls_def is_glfwWindowHint_def
          is_glfwCreateWindow_def)
next
  case (3 win)
  let ?loop = "render_loop (shaderProgram_name w) (VAO_name w) (frames w) win"
  have a: "filter is_glfwWindowHint (fst ?loop) = []"
    by (rule render_loop_filter_none) (rule loop_call_not_hint)
  have b: "filter is_glfwCreateWindow (fst ?loop) = []"
    by (rule render_loop_filter_none) (rule loop_call_not_create)
  from 3 show ?thesis
    by (simp add: main_running a b initialization_calls_def compile_link_calls_def
          buffer_upload_calls_def cleanup_calls_def is_glfwWindowHint_def is_glfwCreateWindow_def)
qed

text \<open>
  C8. Without a window the last call is \<^verbatim>\<open>glfwTerminate\<close> and the program returns -1.
  With a window and a failed loader the program returns -1 as well, after
  \<^verbatim>\<open>glfwInit\<close> and the creation of the window, and \<^verbatim>\<open>glfwTerminate\<close> is never
  called.
\<close>

theorem error_exits_clean_up_differently:
  "(glfwCreateWindow_result w = None \<longrightarrow>
      snd (main w) = Some (- 1)
      \<and> last (fst (main w)) = GlfwTerminate
      \<and> length (filter (\<lambda>c. c = GlfwTerminate) (fst (main w))) = 1)
   \<and> (glfwCreateWindow_result w \<noteq> None \<and> gladLoadGLLoader_result w = 0 \<longrightarrow>
      snd (main w) = Some (- 1)
      \<and> GlfwTerminate \<notin> set (fst (main w))
      \<and> GlfwInit \<in> set (fst (main w))
      \<and> GlfwCreateWindow 800 600 ''OpenGL - Creating a window'' \<in> set (fst (main w)))"
proof (cases w rule: main_cases)
  case 1
  then show ?thesis
    by (simp add: main_no_window initialization_calls_def)
next
  case (2 win)
  then show ?thesis
    by (simp add: main_no_loader initialization_calls_def)
next
  case (3 win)
  then show ?thesis by simp
qed

theorem error_exits_clean_up_differently_witness:
  "glfwCreateWindow_result world_no_window = None
   \<and> snd (main world_no_window) = Some (- 1)
   \<and> last (fst (main world_no_window)) = GlfwTerminate
   \<and> glfwCreateWindow_result world_no_loader \<noteq> None
   \<and> gladLoadGLLoader_result world_no_loader = 0
   \<and> snd (main world_no_loader) = Some (- 1)
   \<and> GlfwTerminate \<notin> set (fst (main world_no_loader))"
proof -
  have a: "glfwCreateWindow_result world_no_window = None"
    by (simp add: world_no_window_def)
  have b: "glfwCreateWindow_result world_no_loader \<noteq> None"
    and c: "gladLoadGLLoader_result world_no_loader = 0"
    by (simp_all add: world_no_loader_def world_escape_def)
  from error_exits_clean_up_differently [of world_no_window] a
  have d: "snd (main world_no_window) = Some (- 1) \<and> last (fst (main world_no_window)) = GlfwTerminate"
    by blast
  from error_exits_clean_up_differently [of world_no_loader] b c
  have e: "snd (main world_no_loader) = Some (- 1) \<and> GlfwTerminate \<notin> set (fst (main world_no_loader))"
    by blast
  from a b c d e show ?thesis by blast
qed

text \<open>
  C9. For every window, \<open>processInput\<close> calls \<^verbatim>\<open>glfwSetWindowShouldClose(window, true)\<close>
  exactly when ESC is reported pressed; then the window differs in the close flag alone,
  which is set; otherwise the window is returned as it was.
\<close>

theorem processInput_closes_iff_escape:
  "(GlfwSetWindowShouldClose True \<in> set (fst (processInput win))) =
     (glfwGetKey win GLFW_KEY_ESCAPE = GLFW_PRESS)
   \<and> (glfwGetKey win GLFW_KEY_ESCAPE = GLFW_PRESS \<longrightarrow>
        snd (processInput win) = win\<lparr>should_close := True\<rparr>
        \<and> glfwWindowShouldClose (snd (processInput win)))
   \<and> (glfwGetKey win GLFW_KEY_ESCAPE \<noteq> GLFW_PRESS \<longrightarrow>
        snd (processInput win) = win)
   \<and> keys (snd (processInput win)) = keys win
   \<and> should_close (snd (processInput win)) =
       (should_close win \<or> glfwGetKey win GLFW_KEY_ESCAPE = GLFW_PRESS)"
  by (simp add: processInput_def glfwSetWindowShouldClose_def glfwWindowShouldClose_def)

theorem processInput_closes_iff_escape_witness:
  "glfwGetKey (fresh_window\<lparr>keys := (\<lambda>k. GLFW_PRESS)\<rparr>) GLFW_KEY_ESCAPE = GLFW_PRESS
   \<and> glfwWindowShouldClose (snd (processInput (fresh_window\<lparr>keys := (\<lambda>k. GLFW_PRESS)\<rparr>)))
   \<and> glfwGetKey fresh_window GLFW_KEY_ESCAPE \<noteq> GLFW_PRESS
   \<and> snd (processInput fresh_window) = fresh_window
   \<and> \<not> glfwWindowShouldClose (snd (processInput fresh_window))"
proof -
  have pressed: "glfwGetKey (fresh_window\<lparr>keys := (\<lambda>k. GLFW_PRESS)\<rparr>) GLFW_KEY_ESCAPE = GLFW_PRESS"
    by (simp add: glfwGetKey_def)
  have released: "glfwGetKey fresh_window GLFW_KEY_ESCAPE \<noteq> GLFW_PRESS"
    by (simp add: glfwGetKey_def fresh_window_def)
  have open_window: "\<not> glfwWindowShouldClose fresh_window"
    by (simp add: glfwWindowShouldClose_def fresh_window_def)
  from processInput_closes_iff_escape [of "fresh_window\<lparr>keys := (\<lambda>k. GLFW_PRESS)\<rparr>"] pressed
  have a: "glfwWindowShouldClose (snd (processInput (fresh_window\<lparr>keys := (\<lambda>k. GLFW_PRESS)\<rparr>)))"
    by blast
  from processInput_closes_iff_escape [of fresh_window] released
  have b: "snd (processInput fresh_window) = fresh_window"
    by blast
  from pressed a released b open_window show ?thesis by simp
qed

text \<open>
  C10. Every entry of the index array is at most 3 and so below the number of vertices,
  which is 4; the index array has 6 entries, and every draw call of every run draws that
  many indices.
\<close>

theorem indices_within_vertices:
  "(\<forall>i \<in> set indices. unat i \<le> 3 \<and> unat i < length vertices div 3)
   \<and> length vertices div 3 = 4
   \<and> length indices = 6
   \<and> (\<forall>c \<in> set (fst (main w)). is_draw_call c \<longrightarrow>
        c = GlDrawElements GL_TRIANGLES (int (length indices)) GL_UNSIGNED_INT 0)"
proof -
  have "\<forall>i \<in> set indices. unat i \<le> 3 \<and> unat i < length vertices div 3"
    by (simp add: indices_def vertices_def)
  moreover have "length vertices div 3 = 4"
    by (simp add: vertices_def)
  moreover have n: "length indices = 6"
    by (simp add: indices_def)
  moreover have "\<forall>c \<in> set (fst (main w)). is_draw_call c \<longrightarrow>
        c = GlDrawElements GL_TRIANGLES (int (length indices)) GL_UNSIGNED_INT 0"
    using main_draw_calls [of _ w] by (simp add: n)
  ultimately show ?thesis by blast
qed

theorem indices_within_vertices_witness:
  "(3 :: GLuint) \<in> set indices \<and> unat (3 :: GLuint) \<le> 3
   \<and> GlDrawElements GL_TRIANGLES 6 GL_UNSIGNED_INT 0 \<in> set (fst (main world_escape))
   \<and> is_draw_call (GlDrawElements GL_TRIANGLES 6 GL_UNSIGNED_INT 0)
   \<and> GlDrawElements GL_TRIANGLES 6 GL_UNSIGNED_INT 0 =
       GlDrawElements GL_TRIANGLES (int (length indices)) GL_UNSIGNED_INT 0"
proof -
  have i: "(3 :: GLuint) \<in> set indices"
    by (simp add: indices_def)
  have c: "GlDrawElements GL_TRIANGLES 6 GL_UNSIGNED_INT 0 \<in> set (fst (main world_escape))"
    by (simp add: main_world_escape)
  have d: "is_draw_call (GlDrawElements GL_TRIANGLES 6 GL_UNSIGNED_INT 0)"
    by (simp add: is_draw_call_def)
  from indices_within_vertices [of world_escape] i c d show ?thesis
    by blast
qed

end
